theory Spec2Isabelle
  imports Main
begin

section \<open>Exceptions and XML elements\<close>

text \<open>
  An ElementTree element: its qualified tag (\<open>{namespace}name\<close>), its attribute
  dictionary, its character data as written in the document, and its sub-elements in
  document order.
\<close>

datatype xml = Element (xtag: string) (xattrib: "(string \<times> string) list")
  (xtext: string) (xchildren: "xml list")

text \<open>
  Modelled from the spec: \<open>errors.py\<close> is not among the sources; the domain error kinds
  (ConnectionFailed, NotAuthorized, ServiceUnavailable, BadRequest, UpstreamError with
  issuer, code and message) are the tagged variant of the data model. The other
  constructors are the Python and slixmpp exception classes that the sources raise or
  receive: \<open>IqError\<close> carries the condition, the text and the error stanza,
  \<open>XMPPError\<close> the condition, the optional error type and the text, and
  \<open>OtherError\<close> stands for any other exception class, by name.
\<close>

datatype exn =
    ConnectionFailed string
  | NotAuthorized string
  | ServiceUnavailable string
  | BadRequest string
  | UpstreamError string string string
  | TimeoutError
  | ValueError string
  | PermissionError string
  | KeyError string
  | TypeError string
  | AttributeError string
  | RuntimeError string
  | ParseError string
  | IqError string string xml
  | IqTimeout
  | XMPPError string "string option" string
  | OtherError string string

section \<open>Session start: \<open>xmpp_utils.py\<close>\<close>

text \<open>
  \<open>asyncio.Future[bool]\<close>: pending, holding a result, or cancelled. A future is done
  as soon as it is not pending.
\<close>

datatype future = Pending | Result bool | Cancelled

fun is_done :: "future \<Rightarrow> bool" where
  "is_done Pending = False"
| "is_done (Result b) = True"
| "is_done Cancelled = True"

text \<open>
  The callables registered as event handlers. The four closures of
  \<open>_wait_for_session_start\<close> are created afresh by every call, so they carry the number
  of the call that made them; \<open>reconnect_handler\<close> is the bound method
  \<open>ClientAsync.__reconnect\<close>; \<open>foreign\<close> is any handler registered by someone else.
\<close>

datatype handler =
    session_start_waiter nat
  | session_end_handler nat
  | connection_failed_handler nat
  | failed_auth_handler nat
  | reconnect_handler
  | foreign string

text \<open>
  The state the coroutines share: the transport's table of event handlers (event name,
  callable, disposable flag, in registration order), the futures and the \<open>error\<close>
  variables of the calls of \<open>_wait_for_session_start\<close> (fresh futures are pending,
  fresh \<open>error\<close> variables are \<open>None\<close>), the number of the next call, the number of
  \<open>__reconnect\<close> coroutines that have been started and have not returned, the log,
  whether the transport has been told to connect (and not to disconnect since), the
  names of the registered stanza handlers, and the priorities of the presences sent.
\<close>

record world =
  event_handlers :: "(string \<times> handler \<times> bool) list"
  session_state :: "nat \<Rightarrow> future"
  error :: "nat \<Rightarrow> exn option"
  next_call :: nat
  reconnect_tasks :: nat
  logged :: "string list"
  transport_open :: bool
  stanza_handlers :: "string list"
  presences :: "int list"

definition initial_world :: world where
  "initial_world = \<lparr>event_handlers = [], session_state = (\<lambda>_. Pending),
     error = (\<lambda>_. None), next_call = 0, reconnect_tasks = 0, logged = [],
     transport_open = False, stanza_handlers = [], presences = []\<rparr>"

text \<open>
  The transport library's event table, as slixmpp implements it:
  \<open>add_event_handler\<close> appends, \<open>del_event_handler\<close> drops every registration of the
  callable under the name (and is silent when there is none), and \<open>event\<close> calls each
  handler registered under the name and forgets the disposable ones.
\<close>

definition add_event_handler :: "string \<Rightarrow> handler \<Rightarrow> bool \<Rightarrow> world \<Rightarrow> world" where
  "add_event_handler name pointer disposable w =
     w\<lparr>event_handlers := event_handlers w @ [(name, pointer, disposable)]\<rparr>"

definition del_event_handler :: "string \<Rightarrow> handler \<Rightarrow> world \<Rightarrow> world" where
  "del_event_handler name pointer w =
     w\<lparr>event_handlers :=
          filter (\<lambda>(n, p, d). \<not> (n = name \<and> p = pointer)) (event_handlers w)\<rparr>"

definition set_failed :: "nat \<Rightarrow> exn \<Rightarrow> world \<Rightarrow> world" where
  "set_failed i e w =
     w\<lparr>error := (error w)(i := Some e),
       session_state := (session_state w)(i := Result False)\<rparr>"

fun run_handler :: "handler \<Rightarrow> string \<Rightarrow> world \<Rightarrow> world" where
  "run_handler (session_start_waiter i) event_data w =
     (if \<not> is_done (session_state w i)
      then w\<lparr>session_state := (session_state w)(i := Result True)\<rparr> else w)"
| "run_handler (session_end_handler i) event_data w =
     (if \<not> is_done (session_state w i)
      then set_failed i (ConnectionFailed ''XMPP server ended the session'') w else w)"
| "run_handler (connection_failed_handler i) event_data w =
     (if \<not> is_done (session_state w i)
      then set_failed i
             (ConnectionFailed (''XMPP server is not reachable, '' @ event_data)) w
      else w)"
| "run_handler (failed_auth_handler i) event_data w =
     (if \<not> is_done (session_state w i)
      then set_failed i (ConnectionFailed ''Invalid username or password'') w else w)"
| "run_handler reconnect_handler event_data w =
     w\<lparr>reconnect_tasks := Suc (reconnect_tasks w),
       logged := logged w @ [''Reconnecting'']\<rparr>"
| "run_handler (foreign f) event_data w = w"

definition call_registered :: "string \<Rightarrow> world \<Rightarrow> string \<times> handler \<times> bool \<Rightarrow> world" where
  "call_registered event_data w reg =
     (let w' = run_handler (fst (snd reg)) event_data w
      in if snd (snd reg)
         then w'\<lparr>event_handlers := remove1 reg (event_handlers w')\<rparr> else w')"

definition event :: "string \<Rightarrow> string \<Rightarrow> world \<Rightarrow> world" where
  "event name event_data w =
     foldl (call_registered event_data) w
       (filter (\<lambda>reg. fst reg = name) (event_handlers w))"

text \<open>
  What can happen while \<open>_wait_for_session_start\<close> is suspended in
  \<open>asyncio.wait_for(session_state, 10)\<close>: the transport fires an event, or the ten
  seconds elapse. When the timer fires on a pending future, \<open>wait_for\<close> cancels it.
\<close>

datatype occurrence = Signal string string | Timeout

fun occur :: "nat \<Rightarrow> occurrence \<Rightarrow> world \<Rightarrow> world" where
  "occur i (Signal name event_data) w = event name event_data w"
| "occur i Timeout w =
     (if is_done (session_state w i) then w
      else w\<lparr>session_state := (session_state w)(i := Cancelled)\<rparr>)"

text \<open>
  \<open>await asyncio.wait_for(session_state, 10)\<close>, given everything that happens before
  the coroutine runs again. The coroutine only runs again once the future is done or the
  timer has fired, so when the listed occurrences leave the future pending the timer
  fires after them. A cancelled future makes \<open>wait_for\<close> raise
  \<open>asyncio.TimeoutError\<close>; otherwise it returns the future's result.
\<close>

definition wait_for :: "nat \<Rightarrow> occurrence list \<Rightarrow> world \<Rightarrow> (exn + bool) \<times> world" where
  "wait_for i occs w =
     (let w' = occur i Timeout (foldl (\<lambda>v oc. occur i oc v) w occs)
      in case session_state w' i of
           Result b \<Rightarrow> (Inr b, w')
         | Cancelled \<Rightarrow> (Inl TimeoutError, w')
         | Pending \<Rightarrow> (Inl TimeoutError, w'))"

definition handlers :: "nat \<Rightarrow> (string \<times> handler) list" where
  "handlers i =
     [(''session_start'', session_start_waiter i),
      (''session_end'', session_end_handler i),
      (''connection_failed'', connection_failed_handler i),
      (''failed_auth'', failed_auth_handler i)]"

text \<open>
  \<open>_wait_for_session_start\<close>: a fresh future and \<open>error = None\<close>; in the \<open>try\<close>
  block the four handlers are registered as disposable, the future is awaited, and a
  recorded error is raised; the \<open>finally\<close> block removes the four handlers whatever
  happened. The result is \<open>Inr ()\<close> for a normal return and \<open>Inl e\<close> when \<open>e\<close> is
  raised.
\<close>

definition wait_for_session_start :: "occurrence list \<Rightarrow> world \<Rightarrow> (exn + unit) \<times> world" where
  "wait_for_session_start occs w =
     (let i = next_call w;
          w0 = w\<lparr>next_call := Suc i,
                 session_state := (session_state w)(i := Pending),
                 error := (error w)(i := None)\<rparr>;
          w1 = foldl (\<lambda>v (event_name, pointer). add_event_handler event_name pointer True v)
                 w0 (handlers i);
          (r, w2) = wait_for i occs w1;
          outcome = (case r of
                       Inl e \<Rightarrow> Inl e
                     | Inr b \<Rightarrow> (case error w2 i of Some e \<Rightarrow> Inl e | None \<Rightarrow> Inr ()));
          w3 = foldl (\<lambda>v (event_name, pointer). del_event_handler event_name pointer v)
                 w2 (handlers i)
      in (outcome, w3))"

section \<open>The client's session: \<open>client.py\<close>\<close>

text \<open>
  The transport's \<open>connect\<close> and \<open>disconnect\<close> calls. They start and close the
  connection and leave the table of event handlers alone; what the transport reports
  afterwards arrives as events.
\<close>

definition xmpp_connect :: "world \<Rightarrow> world" where
  "xmpp_connect w = w\<lparr>transport_open := True\<rparr>"

definition xmpp_disconnect :: "world \<Rightarrow> world" where
  "xmpp_disconnect w = w\<lparr>transport_open := False\<rparr>"

text \<open>
  \<open>ClientAsync.__init__\<close> registers \<open>__reconnect\<close> for the \<open>disconnected\<close>
  event; the registration is not disposable.
\<close>

definition ClientAsync_init :: "world \<Rightarrow> world" where
  "ClientAsync_init w = add_event_handler ''disconnected'' reconnect_handler False w"

text \<open>
  \<open>ClientAsync.connect\<close>: connect the transport, wait for the session to start (an
  exception of the wait leaves \<open>connect\<close> as it is), build the client, register the
  handler of data messages and send the presence.
\<close>

definition connect :: "int \<Rightarrow> occurrence list \<Rightarrow> world \<Rightarrow> (exn + unit) \<times> world" where
  "connect priority occs w =
     (case wait_for_session_start occs (xmpp_connect w) of
        (Inl e, w') \<Rightarrow> (Inl e, w')
      | (Inr u, w') \<Rightarrow>
          (let client = ClientAsync_init w'
           in (Inr (), client\<lparr>stanza_handlers := stanza_handlers client @ [''Quoalise Data''],
                              presences := presences client @ [priority]\<rparr>)))"

definition disconnect :: "world \<Rightarrow> world" where
  "disconnect w = xmpp_disconnect w"

text \<open>
  One pass through the body of the \<open>while True\<close> loop of \<open>__reconnect\<close>, after the
  five seconds of sleep: connect the transport and wait for the session to start. When
  the wait returns, the coroutine returns; when it raises, the exception is logged and
  the loop goes round again. The Boolean tells whether the coroutine has returned.
\<close>

definition reconnect_iteration :: "occurrence list \<Rightarrow> world \<Rightarrow> bool \<times> world" where
  "reconnect_iteration occs w =
     (case wait_for_session_start occs (xmpp_connect w) of
        (Inr u, w') \<Rightarrow> (True, w'\<lparr>reconnect_tasks := reconnect_tasks w' - 1\<rparr>)
      | (Inl e, w') \<Rightarrow>
          (False, w'\<lparr>logged := logged w' @ [''Reconnection failed'', ''Reconnecting'']\<rparr>))"

text \<open>
  What happens to a client, one event at a time: the transport fires an event, the caller
  calls \<open>disconnect\<close>, or one of the \<open>__reconnect\<close> coroutines in flight wakes up and
  goes once through its loop.
\<close>

datatype client_event =
    Transport string string
  | Disconnect_call
  | Reconnect_wakes "occurrence list"

fun client_step :: "world \<Rightarrow> client_event \<Rightarrow> world" where
  "client_step w (Transport name event_data) = event name event_data w"
| "client_step w Disconnect_call = disconnect w"
| "client_step w (Reconnect_wakes occs) =
     (if reconnect_tasks w = 0 then w else snd (reconnect_iteration occs w))"

definition run :: "client_event list \<Rightarrow> world \<Rightarrow> world" where
  "run evs w = foldl client_step w evs"

text \<open>A client right after a successful \<open>connect\<close> with the default priority.\<close>

definition connected_client :: world where
  "connected_client = snd (connect (- 1) [Signal ''session_start'' ''''] initial_world)"

text \<open>
  The client's reconnect handler is the one and only handler of the \<open>disconnected\<close>
  event, registered as \<open>ClientAsync.__init__\<close> does it, and it is registered for no
  other event.
\<close>

definition reconnect_registered :: "world \<Rightarrow> bool" where
  "reconnect_registered w \<longleftrightarrow>
     filter (\<lambda>reg. fst reg = ''disconnected'') (event_handlers w) =
       [(''disconnected'', reconnect_handler, False)]
     \<and> list_all (\<lambda>reg. fst (snd reg) = reconnect_handler \<longrightarrow> fst reg = ''disconnected'')
         (event_handlers w)"

text \<open>The \<open>error\<close> variable of call \<open>i\<close> is \<open>None\<close> or holds a ConnectionFailed.\<close>

definition error_is_domain :: "nat \<Rightarrow> world \<Rightarrow> bool" where
  "error_is_domain i w \<longleftrightarrow>
     (case error w i of None \<Rightarrow> True | Some (ConnectionFailed m) \<Rightarrow> True | Some _ \<Rightarrow> False)"

section \<open>Error converters\<close>

text \<open>
  \<open>Element.find(".//tag")\<close>: the first descendant with the tag, in document order.
\<close>

fun descendants :: "xml \<Rightarrow> xml list" where
  "descendants (Element t a x cs) = concat (map (\<lambda>c. c # descendants c) cs)"

definition find_descendant :: "string \<Rightarrow> xml \<Rightarrow> xml option" where
  "find_descendant t e = List.find (\<lambda>c. xtag c = t) (descendants e)"

text \<open>
  \<open>IqErrorConverter.convert\<close> (client.py), on the condition, the text and the stanza
  of an \<open>IqError\<close>: \<open>Some e\<close> when it raises \<open>e\<close>, \<open>None\<close> when it returns.
  \<open>attrib["issuer"]\<close> and \<open>attrib["code"]\<close> are dictionary subscripts, which raise
  \<open>KeyError\<close> on a missing key; the issuer is looked up first.
\<close>

definition convert :: "string \<Rightarrow> string \<Rightarrow> xml \<Rightarrow> exn option" where
  "convert condition text_of iq_xml =
     (if condition = ''not-authorized'' then Some (NotAuthorized text_of)
      else if condition = ''service-unavailable'' then Some (ServiceUnavailable text_of)
      else if condition = ''bad-request'' then Some (BadRequest text_of)
      else if condition = ''undefined-condition'' then
        (case find_descendant ''{urn:quoalise:0}upstream-error'' iq_xml of
           None \<Rightarrow> None
         | Some upstream_error \<Rightarrow>
             (case map_of (xattrib upstream_error) ''issuer'' of
                None \<Rightarrow> Some (KeyError ''issuer'')
              | Some issuer \<Rightarrow>
                  (case map_of (xattrib upstream_error) ''code'' of
                     None \<Rightarrow> Some (KeyError ''code'')
                   | Some code \<Rightarrow> Some (UpstreamError issuer code text_of))))
      else None)"

text \<open>
  \<open>IqErrorConverter.__exit__\<close>, as the exception that leaves the \<open>with\<close> block when
  the given one was raised inside it: an exception whose class is \<open>IqError\<close> goes
  through \<open>convert\<close>; \<open>__exit__\<close> returns \<open>False\<close>, so what \<open>convert\<close> does not
  replace propagates as it is.
\<close>

fun IqErrorConverter_exit :: "exn \<Rightarrow> exn" where
  "IqErrorConverter_exit (IqError condition text_of iq_xml) =
     (case convert condition text_of iq_xml of
        Some e \<Rightarrow> e
      | None \<Rightarrow> IqError condition text_of iq_xml)"
| "IqErrorConverter_exit e = e"

text \<open>\<open>ErrorToXmppConverter.__exit__\<close> (server.py), in the same way.\<close>

fun ErrorToXmppConverter_exit :: "exn \<Rightarrow> exn" where
  "ErrorToXmppConverter_exit (PermissionError msg) = XMPPError ''not-authorized'' None msg"
| "ErrorToXmppConverter_exit (ValueError msg) = XMPPError ''bad-request'' (Some ''modify'') msg"
| "ErrorToXmppConverter_exit e = e"

text \<open>\<open>with IqErrorConverter(): ...\<close> and \<open>with ErrorToXmppConverter(): ...\<close>.\<close>

definition with_IqErrorConverter :: "exn + 'a \<Rightarrow> exn + 'a" where
  "with_IqErrorConverter r = (case r of Inl e \<Rightarrow> Inl (IqErrorConverter_exit e) | Inr v \<Rightarrow> Inr v)"

definition with_ErrorToXmppConverter :: "exn + 'a \<Rightarrow> exn + 'a" where
  "with_ErrorToXmppConverter r =
     (case r of Inl e \<Rightarrow> Inl (ErrorToXmppConverter_exit e) | Inr v \<Rightarrow> Inr v)"

section \<open>Command handlers: \<open>server.py\<close>\<close>

text \<open>
  A data form (XEP-0004) with the fields added by \<open>addField\<close>. The value of a field is
  a text, or a bound method when the caller passes the method instead of calling it.
\<close>

datatype field_value = Text string | Bound_method string

datatype field = Field (var: string) (field_type: string) (label: string)
  (desc: "string option") (required: bool) (field_value: field_value)

record form =
  form_type :: string
  title :: string
  form_fields :: "field list"

definition make_form :: "string \<Rightarrow> string \<Rightarrow> form" where
  "make_form ftype t = \<lparr>form_type = ftype, title = t, form_fields = []\<rparr>"

definition addField :: "field \<Rightarrow> form \<Rightarrow> form" where
  "addField f client_form = client_form\<lparr>form_fields := form_fields client_form @ [f]\<rparr>"

text \<open>
  The session dictionary of an ad-hoc command, with the keys the handlers use:
  \<open>from\<close>, \<open>payload\<close> (nothing, a form, or the list of the result form and the
  result data) and \<open>next\<close> (no continuation, or \<open>handle_submit\<close>).
\<close>

datatype 'd payload = No_payload | Form_payload form | Result_payload form "'d option"

datatype continuation = Handle_submit

record 'd session =
  session_from :: string
  session_payload :: "'d payload"
  session_next :: "continuation option"

text \<open>
  A command handler: the attributes \<open>node\<close> and \<open>name\<close> set by
  \<open>CommandHandler.__init__\<close>, the attribute \<open>xmpp_client\<close> set by
  \<open>ServerAsync.add_handler\<close> (absent before), and the two abstract methods a variant
  supplies. \<open>fill_form\<close> returns the form it has filled; \<open>execute\<close> returns its result
  and the result form it has filled.
\<close>

record 'd command_handler =
  node :: string
  name :: string
  xmpp_client :: "string option"
  fill_form :: "form \<Rightarrow> exn + form"
  execute :: "string \<Rightarrow> 'd payload \<Rightarrow> form \<Rightarrow> exn + ('d option \<times> form)"

definition add_handler :: "string \<Rightarrow> 'd command_handler \<Rightarrow> 'd command_handler" where
  "add_handler server_client h = h\<lparr>xmpp_client := Some server_client\<rparr>"

definition handle_submit ::
  "'d command_handler \<Rightarrow> 'd payload \<Rightarrow> 'd session \<Rightarrow> exn + 'd session" where
  "handle_submit self p session =
     (case xmpp_client self of
        None \<Rightarrow> Inl (AttributeError ''xmpp_client'')
      | Some c \<Rightarrow>
          (let result_form = make_form ''result'' ''Get history''
           in case with_ErrorToXmppConverter (execute self (session_from session) p result_form) of
                Inl e \<Rightarrow> Inl e
              | Inr (result_data, result_form') \<Rightarrow>
                  Inr (session\<lparr>session_next := None,
                              session_payload := Result_payload result_form' result_data\<rparr>)))"

text \<open>
  \<open>handle_request\<close>: \<open>iq["command"].xml\<close> is true when the command element has
  sub-elements.
\<close>

definition handle_request ::
  "'d command_handler \<Rightarrow> xml \<Rightarrow> 'd session \<Rightarrow> exn + 'd session" where
  "handle_request self iq_command session =
     (if xchildren iq_command \<noteq> [] then handle_submit self (session_payload session) session
      else
        (case xmpp_client self of
           None \<Rightarrow> Inl (AttributeError ''xmpp_client'')
         | Some c \<Rightarrow>
             (let form = make_form ''form'' (name self)
              in case with_ErrorToXmppConverter (fill_form self form) of
                   Inl e \<Rightarrow> Inl e
                 | Inr form' \<Rightarrow>
                     Inr (session\<lparr>session_payload := Form_payload form',
                                 session_next := Some Handle_submit\<rparr>))))"

text \<open>
  \<open>payload["values"]["identifier"]\<close>: the values of a submitted form by field name.
  Subscripting \<open>None\<close> or a list with a string raises \<open>TypeError\<close>, a missing key
  \<open>KeyError\<close>.
\<close>

definition payload_value :: "'d payload \<Rightarrow> string \<Rightarrow> exn + field_value" where
  "payload_value p k =
     (case p of
        No_payload \<Rightarrow> Inl (TypeError ''NoneType object is not subscriptable'')
      | Result_payload f d \<Rightarrow> Inl (TypeError ''list indices must be integers or slices, not str'')
      | Form_payload f \<Rightarrow>
          (case map_of (map (\<lambda>fld. (var fld, field_value fld)) (form_fields f)) k of
             None \<Rightarrow> Inl (KeyError k)
           | Some v \<Rightarrow> Inr v))"

text \<open>
  \<open>Subscribe.fill_form\<close> and \<open>Subscribe.execute\<close>: the variant's own
  \<open>default_identifier\<close> and \<open>subscribe\<close> are parameters. \<open>fill_form\<close> passes the
  method \<open>self.default_identifier\<close> itself as the value of the field.
\<close>

definition Subscribe_fill_form :: "form \<Rightarrow> exn + form" where
  "Subscribe_fill_form client_form =
     Inr (addField (Field ''identifier'' ''text-single'' ''Identifier'' None True
                      (Bound_method ''default_identifier'')) client_form)"

definition Subscribe_execute ::
  "(string \<Rightarrow> field_value \<Rightarrow> exn + unit) \<Rightarrow> string \<Rightarrow> 'd payload \<Rightarrow> form
     \<Rightarrow> exn + ('d option \<times> form)" where
  "Subscribe_execute subscribe client p result_form =
     (case payload_value p ''identifier'' of
        Inl e \<Rightarrow> Inl e
      | Inr identifier \<Rightarrow>
          (case subscribe client identifier of
             Inl e \<Rightarrow> Inl e
           | Inr u \<Rightarrow>
               Inr (None,
                    addField (Field ''result'' ''fixed''
                                (''Subscribe to '' @ (case identifier of Text s \<Rightarrow> s
                                                      | Bound_method m \<Rightarrow> m))
                                None False (Text ''Success'')) result_form)))"

text \<open>
  The classes of server.py and their construction. \<open>Subclass n b\<close> is an application's
  class \<open>class n(b)\<close> that implements the abstract methods of \<open>b\<close> and has no
  \<open>__init__\<close> of its own. The method resolution order follows the bases written in each
  class statement: \<open>CommandHandler(ABC)\<close>, \<open>GetHistoryHandler(CommandHandler)\<close>, and
  \<open>Subscribe\<close> and \<open>Unsubscribe\<close> with no base, that is \<open>object\<close>.
\<close>

datatype pyclass = object | ABC | CommandHandler | GetHistoryHandler | Subscribe | Unsubscribe
  | Subclass string pyclass

fun mro :: "pyclass \<Rightarrow> pyclass list" where
  "mro object = [object]"
| "mro ABC = [ABC, object]"
| "mro CommandHandler = [CommandHandler, ABC, object]"
| "mro GetHistoryHandler = [GetHistoryHandler, CommandHandler, ABC, object]"
| "mro Subscribe = [Subscribe, object]"
| "mro Unsubscribe = [Unsubscribe, object]"
| "mro (Subclass n b) = Subclass n b # mro b"

text \<open>The methods each class body defines, and attribute lookup along the order.\<close>

fun class_body :: "pyclass \<Rightarrow> string list" where
  "class_body object = [''__init__'']"
| "class_body ABC = []"
| "class_body CommandHandler =
     [''__init__'', ''handle_request'', ''handle_submit'', ''fill_form'', ''execute'']"
| "class_body GetHistoryHandler =
     [''__init__'', ''fill_form'', ''execute'', ''default_identifier'', ''get_history'']"
| "class_body Subscribe =
     [''__init__'', ''fill_form'', ''execute'', ''default_identifier'', ''subscribe'']"
| "class_body Unsubscribe =
     [''__init__'', ''fill_form'', ''execute'', ''default_identifier'', ''unsubscribe'']"
| "class_body (Subclass n b) = []"

definition has_method :: "pyclass \<Rightarrow> string \<Rightarrow> bool" where
  "has_method c m = list_ex (\<lambda>k. m \<in> set (class_body k)) (mro c)"

text \<open>
  The abstract methods left without an implementation; they prevent instantiation only
  under the metaclass of \<open>ABC\<close>.
\<close>

fun abstract_methods :: "pyclass \<Rightarrow> string list" where
  "abstract_methods CommandHandler = [''fill_form'', ''execute'']"
| "abstract_methods GetHistoryHandler = [''default_identifier'', ''get_history'']"
| "abstract_methods c = []"

text \<open>
  \<open>__init__\<close> along the rest of the method resolution order, with the keyword
  arguments of the call; the result is the attributes set on the instance.
  \<open>object.__init__\<close> takes no argument; \<open>CommandHandler.__init__\<close> takes \<open>node\<close>
  and \<open>name\<close> and calls no further; the three variants take none and call
  \<open>super().__init__(node=..., name=...)\<close>.
\<close>

fun call_init :: "pyclass list \<Rightarrow> (string \<times> string) list \<Rightarrow> exn + (string \<times> string) list" where
  "call_init [] kwargs = Inr []"
| "call_init (object # rest) kwargs =
     (if kwargs = [] then Inr []
      else Inl (TypeError
        ''object.__init__() takes exactly one argument (the instance to initialize)''))"
| "call_init (ABC # rest) kwargs = call_init rest kwargs"
| "call_init (CommandHandler # rest) kwargs =
     (case (map_of kwargs ''node'', map_of kwargs ''name'') of
        (Some n, Some m) \<Rightarrow>
          (if length kwargs = 2 then Inr [(''node'', n), (''name'', m)]
           else Inl (TypeError ''__init__() got an unexpected keyword argument''))
      | _ \<Rightarrow> Inl (TypeError ''__init__() missing required positional arguments''))"
| "call_init (GetHistoryHandler # rest) kwargs =
     (if kwargs = []
      then call_init rest [(''node'', ''get_history''), (''name'', ''Get history'')]
      else Inl (TypeError ''__init__() got an unexpected keyword argument''))"
| "call_init (Subscribe # rest) kwargs =
     (if kwargs = []
      then call_init rest [(''node'', ''subscribe''), (''name'', ''Subscribe'')]
      else Inl (TypeError ''__init__() got an unexpected keyword argument''))"
| "call_init (Unsubscribe # rest) kwargs =
     (if kwargs = []
      then call_init rest [(''node'', ''unsubscribe''), (''name'', ''Unsubscribe'')]
      else Inl (TypeError ''__init__() got an unexpected keyword argument''))"
| "call_init (Subclass n b # rest) kwargs = call_init rest kwargs"

definition construct :: "pyclass \<Rightarrow> exn + (string \<times> string) list" where
  "construct c =
     (if ABC \<in> set (mro c) \<and> abstract_methods c \<noteq> []
      then Inl (TypeError ''Cannot instantiate abstract class'')
      else call_init (mro c) [])"

section \<open>Dates: \<open>utils.py\<close>\<close>

text \<open>
  \<open>datetime.date\<close> and \<open>datetime.datetime\<close>, which extends it. \<open>tzinfo\<close> is
  \<open>None\<close> for a naive value; for an aware one the model keeps the offset from UTC in
  minutes, which is what the formatting of the value uses. Python only builds valid
  dates: a year from 1 to 9999, a month from 1 to 12, and a day that the month has.
\<close>

record date =
  year :: nat
  month :: nat
  day :: nat

record datetime = date +
  hour :: nat
  minute :: nat
  second :: nat
  microsecond :: nat
  tzinfo :: "int option"

definition is_leap :: "nat \<Rightarrow> bool" where
  "is_leap y \<longleftrightarrow> y mod 4 = 0 \<and> (y mod 100 \<noteq> 0 \<or> y mod 400 = 0)"

definition days_in_month :: "nat \<Rightarrow> nat \<Rightarrow> nat" where
  "days_in_month y m =
     (if m = 2 then (if is_leap y then 29 else 28)
      else if m = 4 \<or> m = 6 \<or> m = 9 \<or> m = 11 then 30 else 31)"

definition valid_date :: "'a date_scheme \<Rightarrow> bool" where
  "valid_date d \<longleftrightarrow>
     1 \<le> year d \<and> year d \<le> 9999 \<and> 1 \<le> month d \<and> month d \<le> 12
     \<and> 1 \<le> day d \<and> day d \<le> days_in_month (year d) (month d)"

text \<open>Decimal digits and zero-padded numbers.\<close>

definition digit :: "nat \<Rightarrow> char" where
  "digit n = char_of (48 + n)"

definition is_digit :: "char \<Rightarrow> bool" where
  "is_digit c \<longleftrightarrow> 48 \<le> (of_char c :: nat) \<and> (of_char c :: nat) \<le> 57"

definition digit_value :: "char \<Rightarrow> nat" where
  "digit_value c = of_char c - 48"

definition pad2 :: "nat \<Rightarrow> string" where
  "pad2 n = [digit (n div 10 mod 10), digit (n mod 10)]"

definition pad4 :: "nat \<Rightarrow> string" where
  "pad4 n = [digit (n div 1000 mod 10), digit (n div 100 mod 10), digit (n div 10 mod 10),
             digit (n mod 10)]"

definition pad6 :: "nat \<Rightarrow> string" where
  "pad6 n = [digit (n div 100000 mod 10), digit (n div 10000 mod 10)] @ pad4 n"

text \<open>A year below 10000 without padding, as the C library's \<open>%Y\<close> may print it.\<close>

definition unpadded :: "nat \<Rightarrow> string" where
  "unpadded n =
     (if n < 10 then [digit n]
      else if n < 100 then pad2 n
      else if n < 1000 then digit (n div 100 mod 10) # pad2 n
      else pad4 n)"

text \<open>
  \<open>format_iso_date\<close>: \<open>date.strftime("%Y-%m-%d")\<close>. \<open>%m\<close> and \<open>%d\<close> are two
  digits. \<open>%Y\<close> is four digits where the Python runtime pads the year, and the plain
  number where it hands the year to a C library that does not pad; which of the two
  holds is the first parameter.
\<close>

definition format_iso_date :: "bool \<Rightarrow> 'a date_scheme \<Rightarrow> string" where
  "format_iso_date padded_year d =
     (if padded_year then pad4 (year d) else unpadded (year d))
       @ ''-'' @ pad2 (month d) @ ''-'' @ pad2 (day d)"

text \<open>
  \<open>datetime.strptime(date_str, "%Y-%m-%d")\<close> turns the format into a regular
  expression and matches it at the start of the string: \<open>%Y\<close> is \<open>\d\d\d\d\<close>,
  \<open>%m\<close> is \<open>1[0-2]|0[1-9]|[1-9]\<close> and \<open>%d\<close> is
  \<open>3[0-1]|[1-2]\d|0[1-9]|[1-9]| [1-9]\<close>; the alternatives are tried in this order.
  Each function returns the number read and the rest of the string.
\<close>

fun match_Y :: "string \<Rightarrow> (nat \<times> string) option" where
  "match_Y (a # b # c # d # rest) =
     (if is_digit a \<and> is_digit b \<and> is_digit c \<and> is_digit d
      then Some (((digit_value a * 10 + digit_value b) * 10 + digit_value c) * 10
                   + digit_value d, rest)
      else None)"
| "match_Y s = None"

definition nonzero_digit :: "char \<Rightarrow> bool" where
  "nonzero_digit c \<longleftrightarrow> is_digit c \<and> c \<noteq> CHR ''0''"

fun match_m :: "string \<Rightarrow> (nat \<times> string) option" where
  "match_m (a # b # rest) =
     (if a = CHR ''1'' \<and> (b = CHR ''0'' \<or> b = CHR ''1'' \<or> b = CHR ''2'')
        then Some (10 + digit_value b, rest)
      else if a = CHR ''0'' \<and> nonzero_digit b then Some (digit_value b, rest)
      else if nonzero_digit a then Some (digit_value a, b # rest)
      else None)"
| "match_m [a] = (if nonzero_digit a then Some (digit_value a, []) else None)"
| "match_m [] = None"

fun match_d :: "string \<Rightarrow> (nat \<times> string) option" where
  "match_d (a # b # rest) =
     (if a = CHR ''3'' \<and> (b = CHR ''0'' \<or> b = CHR ''1'') then Some (30 + digit_value b, rest)
      else if (a = CHR ''1'' \<or> a = CHR ''2'') \<and> is_digit b
        then Some (digit_value a * 10 + digit_value b, rest)
      else if a = CHR ''0'' \<and> nonzero_digit b then Some (digit_value b, rest)
      else if nonzero_digit a then Some (digit_value a, b # rest)
      else if a = CHR '' '' \<and> nonzero_digit b then Some (digit_value b, rest)
      else None)"
| "match_d [a] = (if nonzero_digit a then Some (digit_value a, []) else None)"
| "match_d [] = None"

fun match_dash :: "string \<Rightarrow> string option" where
  "match_dash (c # rest) = (if c = CHR ''-'' then Some rest else None)"
| "match_dash [] = None"

text \<open>
  \<open>parse_iso_date\<close>: \<open>strptime\<close> raises \<open>ValueError\<close> when the expression does not
  match, when text remains after the match, and when the numbers are not a date.
\<close>

definition parse_iso_date :: "string \<Rightarrow> exn + date" where
  "parse_iso_date date_str =
     (case match_Y date_str of
        None \<Rightarrow> Inl (ValueError ''time data does not match format'')
      | Some (y, r1) \<Rightarrow>
     (case match_dash r1 of
        None \<Rightarrow> Inl (ValueError ''time data does not match format'')
      | Some r2 \<Rightarrow>
     (case match_m r2 of
        None \<Rightarrow> Inl (ValueError ''time data does not match format'')
      | Some (m, r3) \<Rightarrow>
     (case match_dash r3 of
        None \<Rightarrow> Inl (ValueError ''time data does not match format'')
      | Some r4 \<Rightarrow>
     (case match_d r4 of
        None \<Rightarrow> Inl (ValueError ''time data does not match format'')
      | Some (d, r5) \<Rightarrow>
          (if r5 \<noteq> [] then Inl (ValueError ''unconverted data remains'')
           else if valid_date \<lparr>year = y, month = m, day = d\<rparr>
           then Inr \<lparr>year = y, month = m, day = d\<rparr>
           else Inl (ValueError ''day is out of range for month'')))))))"

text \<open>
  The strict form of the property: four digits, a dash, two digits, a dash, two digits.
\<close>

fun strict_form :: "string \<Rightarrow> bool" where
  "strict_form [a, b, c, d, e, f, g, h, i, j] \<longleftrightarrow>
     is_digit a \<and> is_digit b \<and> is_digit c \<and> is_digit d \<and> e = CHR ''-''
     \<and> is_digit f \<and> is_digit g \<and> h = CHR ''-'' \<and> is_digit i \<and> is_digit j"
| "strict_form s \<longleftrightarrow> False"

section \<open>History requests: \<open>ClientAsync.get_history\<close>\<close>

text \<open>
  \<open>xml.sax.saxutils.escape\<close> replaces \<open>&\<close>, \<open>>\<close> and \<open><\<close> by their entities.
\<close>

definition escape :: "string \<Rightarrow> string" where
  "escape s =
     concat (map (\<lambda>c. if c = CHR ''&'' then ''&amp;''
                       else if c = CHR ''>'' then ''&gt;''
                       else if c = CHR ''<'' then ''&lt;'' else [c]) s)"

text \<open>
  The characters an XML document may contain; \<open>fromstring\<close> raises \<open>ParseError\<close> on
  any other.
\<close>

definition xml_chars_ok :: "string \<Rightarrow> bool" where
  "xml_chars_ok s \<longleftrightarrow>
     list_all (\<lambda>c. 32 \<le> (of_char c :: nat) \<or> (of_char c :: nat) \<in> {9, 10, 13}) s"

text \<open>\<open>datetime.isoformat\<close>, with the offset from UTC of an aware value.\<close>

definition utc_offset :: "int \<Rightarrow> string" where
  "utc_offset off =
     (if off < 0 then ''-'' else ''+'') @ pad2 (nat \<bar>off\<bar> div 60) @ '':''
       @ pad2 (nat \<bar>off\<bar> mod 60)"

definition isoformat :: "datetime \<Rightarrow> string" where
  "isoformat t =
     pad4 (year t) @ ''-'' @ pad2 (month t) @ ''-'' @ pad2 (day t) @ ''T''
       @ pad2 (hour t) @ '':'' @ pad2 (minute t) @ '':'' @ pad2 (second t)
       @ (if microsecond t = 0 then [] else ''.'' @ pad6 (microsecond t))
       @ (case tzinfo t of None \<Rightarrow> [] | Some off \<Rightarrow> utc_offset off)"

text \<open>
  The request is written as a text template and parsed by \<open>fromstring\<close>; the model
  builds the element tree that the template denotes. A field of the template is a
  \<open>field\<close> element with a \<open>value\<close> child, whose character data is the escaped
  value.
\<close>

definition text_field :: "string \<Rightarrow> string \<Rightarrow> xml" where
  "text_field v s =
     Element ''{jabber:x:data}field'' [(''var'', v), (''type'', ''text-single'')] []
       [Element ''{jabber:x:data}value'' [] (escape s) []]"

text \<open>
  \<open>start_time_field\<close> and \<open>end_time_field\<close>: nothing when the time is \<open>None\<close>,
  \<open>ValueError\<close> when it is naive, and the field otherwise.
\<close>

definition time_field :: "string \<Rightarrow> datetime option \<Rightarrow> exn + xml list" where
  "time_field v t =
     (case t of
        None \<Rightarrow> Inr []
      | Some time \<Rightarrow>
          (if tzinfo time = None
           then Inl (ValueError ''Naive datetimes are not handled to prevent errors'')
           else Inr [text_field v (isoformat time)]))"

definition get_history_command ::
  "string \<Rightarrow> datetime option \<Rightarrow> datetime option \<Rightarrow> exn + xml" where
  "get_history_command identifier start_time end_time =
     (case time_field ''start_time'' start_time of
        Inl e \<Rightarrow> Inl e
      | Inr start_time_field \<Rightarrow>
     (case time_field ''end_time'' end_time of
        Inl e \<Rightarrow> Inl e
      | Inr end_time_field \<Rightarrow>
          (if \<not> xml_chars_ok identifier then Inl (ParseError ''not well-formed (invalid token)'')
           else Inr (Element ''{http://jabber.org/protocol/commands}command''
                  [(''node'', ''get_history''), (''action'', ''execute'')] []
                  [Element ''{jabber:x:data}x'' [(''type'', ''submit'')] []
                     ([text_field ''identifier'' identifier]
                        @ start_time_field @ end_time_field)]))))"

text \<open>An \<open>Iq\<close> stanza: its type, its destination and the elements appended to it.\<close>

record iq =
  iq_type :: string
  iq_to :: string
  iq_payload :: "xml list"

text \<open>\<open>Element.find(".//a/b")\<close>: the first child \<open>b\<close> of a descendant \<open>a\<close>.\<close>

definition find_path :: "string \<Rightarrow> string \<Rightarrow> xml \<Rightarrow> xml option" where
  "find_path a b e =
     List.find (\<lambda>c. xtag c = b)
       (concat (map xchildren (filter (\<lambda>c. xtag c = a) (descendants e))))"

text \<open>
  What \<open>get_history\<close> does with the response: the command element is looked up (the
  attribute access on \<open>None\<close> raises \<open>AttributeError\<close>), its status is read (a
  missing attribute raises \<open>KeyError\<close>), and a completed command gives the data decoded
  by \<open>Data.from_xml\<close>, which belongs to \<open>data.py\<close> and is a parameter here.
\<close>

definition read_response :: "(xml option \<Rightarrow> exn + 'd) \<Rightarrow> xml \<Rightarrow> exn + 'd" where
  "read_response from_xml response =
     (case find_descendant ''{http://jabber.org/protocol/commands}command'' response of
        None \<Rightarrow> Inl (AttributeError ''attrib'')
      | Some command \<Rightarrow>
          (case map_of (xattrib command) ''status'' of
             None \<Rightarrow> Inl (KeyError ''status'')
           | Some status \<Rightarrow>
               (if status = ''completed''
                then from_xml (find_path ''{urn:quoalise:0}quoalise'' ''{urn:quoalise:0}data''
                                 command)
                else Inl (RuntimeError ''Unexpected iq response''))))"

text \<open>
  \<open>get_history\<close>, with the network as a parameter: \<open>send\<close> gives the response to a
  stanza or the exception that \<open>iq.send()\<close> raises. The first component of the result
  lists the stanzas sent, the second is the value returned or the exception raised.
\<close>

definition get_history ::
  "(iq \<Rightarrow> exn + xml) \<Rightarrow> (xml option \<Rightarrow> exn + 'd) \<Rightarrow> string \<Rightarrow> string
     \<Rightarrow> datetime option \<Rightarrow> datetime option \<Rightarrow> iq list \<times> (exn + 'd)" where
  "get_history send from_xml proxy_full_jid identifier start_time end_time =
     (let stanza = \<lparr>iq_type = ''set'', iq_to = proxy_full_jid, iq_payload = []\<rparr>
      in case get_history_command identifier start_time end_time of
           Inl e \<Rightarrow> ([], Inl e)
         | Inr command \<Rightarrow>
             (let stanza' = stanza\<lparr>iq_payload := iq_payload stanza @ [command]\<rparr>
              in ([stanza'],
                  case with_IqErrorConverter (send stanza') of
                    Inl e \<Rightarrow> Inl e
                  | Inr response \<Rightarrow> read_response from_xml response)))"

text \<open>A time that was supplied without timezone information.\<close>

definition naive :: "datetime option \<Rightarrow> bool" where
  "naive t \<longleftrightarrow> (case t of None \<Rightarrow> False | Some time \<Rightarrow> tzinfo time = None)"

text \<open>The \<open>var\<close> attributes of the fields of a command's form, in document order.\<close>

definition field_vars :: "xml \<Rightarrow> string option list" where
  "field_vars command =
     concat (map (\<lambda>x. map (\<lambda>f. map_of (xattrib f) ''var'') (xchildren x)) (xchildren command))"

section \<open>Properties\<close>

subsection \<open>Session start\<close>

lemma run_handler_error: "error_is_domain i w \<Longrightarrow> error_is_domain i (run_handler h d w)"
  by (cases h) (auto simp: error_is_domain_def set_failed_def split: option.splits exn.splits)

lemma call_registered_error:
  "error_is_domain i w \<Longrightarrow> error_is_domain i (call_registered d w reg)"
proof -
  assume a: "error_is_domain i w"
  have "error_is_domain i (run_handler (fst (snd reg)) d w)"
    using a by (rule run_handler_error)
  then show ?thesis
    by (simp add: call_registered_def Let_def error_is_domain_def)
qed

lemma foldl_call_registered_error:
  "error_is_domain i w \<Longrightarrow> error_is_domain i (foldl (call_registered d) w regs)"
  by (induction regs arbitrary: w) (simp_all add: call_registered_error)

lemma event_error: "error_is_domain i w \<Longrightarrow> error_is_domain i (event n d w)"
  by (simp add: event_def foldl_call_registered_error)

lemma occur_error: "error_is_domain i w \<Longrightarrow> error_is_domain i (occur j oc w)"
  by (cases oc) (simp_all add: event_error, simp add: error_is_domain_def)

lemma foldl_occur_error:
  "error_is_domain i w \<Longrightarrow> error_is_domain i (foldl (\<lambda>v oc. occur j oc v) w occs)"
  by (induction occs arbitrary: w) (simp_all add: occur_error)

lemma snd_wait_for:
  "snd (wait_for j occs w) = occur j Timeout (foldl (\<lambda>v oc. occur j oc v) w occs)"
  by (simp add: wait_for_def Let_def split: future.splits)

lemma wait_for_error:
  "error_is_domain i w \<Longrightarrow> error_is_domain i (snd (wait_for j occs w))"
  unfolding snd_wait_for by (rule occur_error) (rule foldl_occur_error)

lemma wait_for_result:
  "fst (wait_for j occs w) = Inl e \<Longrightarrow> e = TimeoutError"
  by (auto simp: wait_for_def Let_def split: future.splits)

lemma add_handlers_error:
  "error (foldl (\<lambda>v (event_name, pointer). add_event_handler event_name pointer True v) w hs)
     = error w"
  by (induction hs arbitrary: w) (auto simp: add_event_handler_def)

text \<open>
  Whatever happens during the wait, it returns, raises \<open>asyncio.TimeoutError\<close>, or
  raises a ConnectionFailed.
\<close>

lemma wait_for_session_start_outcome:
  "fst (wait_for_session_start occs w) = Inr ()
   \<or> fst (wait_for_session_start occs w) = Inl TimeoutError
   \<or> (\<exists>m. fst (wait_for_session_start occs w) = Inl (ConnectionFailed m))"
proof -
  let ?i = "next_call w"
  let ?w1 = "foldl (\<lambda>v (event_name, pointer). add_event_handler event_name pointer True v)
      (w\<lparr>next_call := Suc ?i, session_state := (session_state w)(?i := Pending),
         error := (error w)(?i := None)\<rparr>) (handlers ?i)"
  have "error ?w1 ?i = None" by (simp add: add_handlers_error)
  then have "error_is_domain ?i ?w1" by (simp add: error_is_domain_def)
  then have dom: "error_is_domain ?i (snd (wait_for ?i occs ?w1))" by (rule wait_for_error)
  obtain r w2 where rw: "wait_for ?i occs ?w1 = (r, w2)" by (cases "wait_for ?i occs ?w1")
  have fst_eq: "fst (wait_for_session_start occs w) =
      (case r of Inl e \<Rightarrow> Inl e
       | Inr b \<Rightarrow> (case error w2 ?i of Some e \<Rightarrow> Inl e | None \<Rightarrow> Inr ()))"
    using rw by (simp add: wait_for_session_start_def Let_def)
  show ?thesis
  proof (cases r)
    case (Inl e)
    with rw have "e = TimeoutError" using wait_for_result [of ?i occs ?w1 e] by simp
    with Inl fst_eq show ?thesis by simp
  next
    case (Inr b)
    from dom rw have "error_is_domain ?i w2" by simp
    with Inr fst_eq show ?thesis
      by (auto simp: error_is_domain_def split: option.splits exn.splits)
  qed
qed

text \<open>
  On every exit path the four handlers of the call are gone from the transport's table
  afterwards.
\<close>

lemma wait_for_session_start_deregisters:
  "(n, p) \<in> set (handlers (next_call w)) \<Longrightarrow>
   (n, p, d) \<notin> set (event_handlers (snd (wait_for_session_start occs w)))"
  by (auto simp: wait_for_session_start_def Let_def handlers_def del_event_handler_def
      split: prod.splits)

text \<open>
  C1. When the ten seconds elapse and none of the four signals has fired, \<open>connect\<close>
  does not raise ConnectionFailed: the \<open>asyncio.TimeoutError\<close> of \<open>wait_for\<close> leaves
  \<open>_wait_for_session_start\<close> and \<open>connect\<close> as it is.
\<close>

theorem C1_timeout_raises_TimeoutError:
  "fst (connect (- 1) [] initial_world) = Inl TimeoutError"
  by (simp add: connect_def xmpp_connect_def wait_for_session_start_def wait_for_def
      handlers_def initial_world_def add_event_handler_def Let_def)


subsection \<open>Reconnection\<close>

lemma event_disconnected:
  "reconnect_registered w \<Longrightarrow>
   event ''disconnected'' d w =
     w\<lparr>reconnect_tasks := Suc (reconnect_tasks w), logged := logged w @ [''Reconnecting'']\<rparr>"
  by (simp add: event_def reconnect_registered_def call_registered_def)

lemma reconnect_registered_event:
  "reconnect_registered w \<Longrightarrow> reconnect_registered (event ''disconnected'' d w)"
  by (simp add: event_disconnected) (simp add: reconnect_registered_def)

lemma reconnect_registered_connected: "reconnect_registered connected_client"
  by (simp add: reconnect_registered_def connected_client_def connect_def xmpp_connect_def
      wait_for_session_start_def wait_for_def handlers_def initial_world_def
      add_event_handler_def del_event_handler_def Let_def event_def call_registered_def
      ClientAsync_init_def)

lemma run_disconnected_signals:
  "reconnect_registered w \<Longrightarrow>
   reconnect_tasks (run (map (Transport ''disconnected'') ds) w) = reconnect_tasks w + length ds
   \<and> reconnect_registered (run (map (Transport ''disconnected'') ds) w)"
proof (induction ds arbitrary: w)
  case Nil
  then show ?case by (simp add: run_def)
next
  case (Cons d ds)
  have step: "run (map (Transport ''disconnected'') (d # ds)) w =
      run (map (Transport ''disconnected'') ds) (event ''disconnected'' d w)"
    by (simp add: run_def)
  have reg: "reconnect_registered (event ''disconnected'' d w)"
    using Cons.prems by (rule reconnect_registered_event)
  have tasks: "reconnect_tasks (event ''disconnected'' d w) = Suc (reconnect_tasks w)"
    using Cons.prems by (simp add: event_disconnected)
  from Cons.IH [OF reg] step tasks show ?case by simp
qed





text \<open>
  C2. Two session-loss signals in a row, with no reconnect attempt completing in between,
  leave two reconnect loops in flight.
\<close>

theorem C2_two_loops_in_flight:
  "reconnect_tasks
     (run [Transport ''disconnected'' '''', Transport ''disconnected'' ''''] connected_client)
   = 2"
  by (simp add: connected_client_def connect_def xmpp_connect_def
      wait_for_session_start_def wait_for_def handlers_def initial_world_def
      add_event_handler_def del_event_handler_def Let_def event_def call_registered_def
      ClientAsync_init_def run_def)

text \<open>
  C2, as the code has it: nothing gates the reconnect handler, so every session-loss
  signal delivered to a client starts a reconnect loop of its own. After any number of
  signals, with no reconnect attempt completing in between, that many more loops are in
  flight.
\<close>

theorem C2_every_signal_starts_a_loop:
  "reconnect_registered w \<Longrightarrow>
   reconnect_tasks (run (map (Transport ''disconnected'') ds) w)
     = reconnect_tasks w + length ds"
  by (simp add: run_disconnected_signals)

theorem C2_every_signal_starts_a_loop_witness:
  "reconnect_registered connected_client
   \<and> reconnect_tasks (run (map (Transport ''disconnected'') [''a'', ''b'', ''c'']) connected_client)
     = reconnect_tasks connected_client + length [''a'', ''b'', ''c'']"
  using C2_every_signal_starts_a_loop [OF reconnect_registered_connected, of "[''a'', ''b'', ''c'']"]
    reconnect_registered_connected
  by simp




subsection \<open>Command handlers and error converters\<close>

text \<open>
  C3. Constructing \<open>Subscribe\<close> or \<open>Unsubscribe\<close>, or an application's subclass of
  one of them, does not succeed: the classes have no base class, so their
  \<open>super().__init__(node=..., name=...)\<close> reaches \<open>object.__init__\<close>, which raises
  \<open>TypeError\<close>, and they do not inherit \<open>handle_request\<close>. A subclass of
  \<open>GetHistoryHandler\<close>, which is derived from \<open>CommandHandler\<close>, is constructed with
  its node and has the shared mechanics.
\<close>

theorem C3_Subscribe_construction_fails:
  "construct Subscribe =
     Inl (TypeError ''object.__init__() takes exactly one argument (the instance to initialize)'')
   \<and> construct Unsubscribe =
     Inl (TypeError ''object.__init__() takes exactly one argument (the instance to initialize)'')
   \<and> construct (Subclass ''MySubscribe'' Subscribe) =
     Inl (TypeError ''object.__init__() takes exactly one argument (the instance to initialize)'')
   \<and> \<not> has_method Subscribe ''handle_request''
   \<and> \<not> has_method Unsubscribe ''handle_request''
   \<and> construct (Subclass ''MyHistory'' GetHistoryHandler) =
     Inr [(''node'', ''get_history''), (''name'', ''Get history'')]
   \<and> has_method (Subclass ''MyHistory'' GetHistoryHandler) ''handle_request''"
  by (simp add: construct_def has_method_def)

text \<open>
  C5. For a handler that has been added to the server: a request whose command element
  has no sub-element gives the session the filled form as payload and \<open>handle_submit\<close>
  as next step, when \<open>fill_form\<close> returns; a request whose command element has
  sub-elements is handled by \<open>handle_submit\<close> on the session's payload; and
  \<open>handle_submit\<close> leaves the session with the list of the result form and the result
  data as payload and with no next step, when \<open>execute\<close> returns.
\<close>

theorem C5_two_phase:
  assumes "xmpp_client self = Some c"
  shows "(xchildren iq_command = [] \<and> fill_form self (make_form ''form'' (name self)) = Inr f
          \<longrightarrow> handle_request self iq_command s
              = Inr (s\<lparr>session_payload := Form_payload f,
                       session_next := Some Handle_submit\<rparr>))
    \<and> (xchildren iq_command \<noteq> []
          \<longrightarrow> handle_request self iq_command s = handle_submit self (session_payload s) s)
    \<and> (execute self (session_from s) p (make_form ''result'' ''Get history'')
            = Inr (result_data, result_form)
          \<longrightarrow> handle_submit self p s
              = Inr (s\<lparr>session_next := None,
                       session_payload := Result_payload result_form result_data\<rparr>))"
  using assms
  by (simp add: handle_request_def handle_submit_def with_ErrorToXmppConverter_def Let_def)

theorem C5_two_phase_witness:
  "handle_request
     \<lparr>node = ''subscribe'', name = ''Subscribe'', xmpp_client = Some ''server@host/quoalise'',
      fill_form = Subscribe_fill_form, execute = Subscribe_execute (\<lambda>c i. Inr ())\<rparr>
     (Element ''{http://jabber.org/protocol/commands}command'' [(''node'', ''subscribe'')] [] [])
     \<lparr>session_from = ''client@host/cli'', session_payload = (No_payload :: nat payload),
      session_next = None\<rparr>
   = Inr \<lparr>session_from = ''client@host/cli'',
          session_payload = Form_payload
            \<lparr>form_type = ''form'', title = ''Subscribe'',
             form_fields = [Field ''identifier'' ''text-single'' ''Identifier'' None True
                              (Bound_method ''default_identifier'')]\<rparr>,
          session_next = Some Handle_submit\<rparr>
   \<and> handle_request
     \<lparr>node = ''subscribe'', name = ''Subscribe'', xmpp_client = Some ''server@host/quoalise'',
      fill_form = Subscribe_fill_form, execute = Subscribe_execute (\<lambda>c i. Inr ())\<rparr>
     (Element ''{http://jabber.org/protocol/commands}command'' [(''node'', ''subscribe'')] []
        [Element ''{jabber:x:data}x'' [(''type'', ''submit'')] [] []])
     \<lparr>session_from = ''client@host/cli'',
      session_payload = (Form_payload
        \<lparr>form_type = ''submit'', title = [],
         form_fields = [Field ''identifier'' ''text-single'' [] None False
                          (Text ''urn:dev:1'')]\<rparr> :: nat payload),
      session_next = Some Handle_submit\<rparr>
   = Inr \<lparr>session_from = ''client@host/cli'',
          session_payload = Result_payload
            \<lparr>form_type = ''result'', title = ''Get history'',
             form_fields = [Field ''result'' ''fixed'' ''Subscribe to urn:dev:1'' None False
                              (Text ''Success'')]\<rparr> None,
          session_next = None\<rparr>"
proof -
  let ?h = "\<lparr>node = ''subscribe'', name = ''Subscribe'',
      xmpp_client = Some ''server@host/quoalise'',
      fill_form = Subscribe_fill_form,
      execute = Subscribe_execute (\<lambda>c i. Inr ())\<rparr> :: nat command_handler"
  let ?s1 = "\<lparr>session_from = ''client@host/cli'', session_payload = (No_payload :: nat payload),
      session_next = None\<rparr>"
  let ?p = "Form_payload
        \<lparr>form_type = ''submit'', title = [],
         form_fields = [Field ''identifier'' ''text-single'' [] None False
                          (Text ''urn:dev:1'')]\<rparr> :: nat payload"
  let ?s2 = "\<lparr>session_from = ''client@host/cli'', session_payload = ?p,
      session_next = Some Handle_submit\<rparr>"
  have c: "xmpp_client ?h = Some ''server@host/quoalise''" by simp
  note first = C5_two_phase [OF c,
      of "Element ''{http://jabber.org/protocol/commands}command'' [(''node'', ''subscribe'')] [] []"
         "addField (Field ''identifier'' ''text-single'' ''Identifier'' None True
                      (Bound_method ''default_identifier'')) (make_form ''form'' ''Subscribe'')"
         ?s1 ?p None "make_form ''result'' ''Get history''"]
  note second = C5_two_phase [OF c,
      of "Element ''{http://jabber.org/protocol/commands}command'' [(''node'', ''subscribe'')] []
            [Element ''{jabber:x:data}x'' [(''type'', ''submit'')] [] []]"
         "make_form ''form'' ''Subscribe''"
         ?s2 ?p None
         "addField (Field ''result'' ''fixed'' ''Subscribe to urn:dev:1'' None False
                      (Text ''Success'')) (make_form ''result'' ''Get history'')"]
  show ?thesis
    using first second
    by (simp add: Subscribe_fill_form_def Subscribe_execute_def payload_value_def
        addField_def make_form_def)
qed

text \<open>
  C6. An \<open>undefined-condition\<close> error whose stanza has an upstream-error element
  without a \<open>code\<close> attribute leaves the client's converter as a \<open>KeyError\<close>: neither
  an UpstreamError nor the original error.
\<close>

theorem C6_missing_attribute_raises_KeyError:
  "IqErrorConverter_exit (IqError ''undefined-condition'' ''upstream failed''
     (Element ''{jabber:client}iq'' [] []
        [Element ''{jabber:client}error'' [] []
           [Element ''{urn:quoalise:0}upstream-error'' [(''issuer'', ''enedis'')] [] []]]))
   = KeyError ''code''"
  by (simp add: convert_def find_descendant_def)

text \<open>
  C6, as the code has it. The client's converter maps an \<open>IqError\<close> with condition
  not-authorized, service-unavailable or bad-request to NotAuthorized, ServiceUnavailable
  or BadRequest with the error's text, and one with condition undefined-condition whose
  stanza has an upstream-error element with an issuer and a code attribute to
  UpstreamError with the issuer, the code and the text. The server's converter maps
  \<open>PermissionError\<close> to not-authorized and \<open>ValueError\<close> to bad-request of type
  modify. An \<open>IqError\<close> with any other condition, one with undefined-condition and no
  upstream-error element, an exception of any other class on the client side, and an
  exception that is neither of the two on the server side, propagate unchanged.
\<close>

theorem C6_error_mapping:
  "IqErrorConverter_exit (IqError ''not-authorized'' t x) = NotAuthorized t
   \<and> IqErrorConverter_exit (IqError ''service-unavailable'' t x) = ServiceUnavailable t
   \<and> IqErrorConverter_exit (IqError ''bad-request'' t x) = BadRequest t
   \<and> (find_descendant ''{urn:quoalise:0}upstream-error'' x = Some u
        \<and> map_of (xattrib u) ''issuer'' = Some issuer
        \<and> map_of (xattrib u) ''code'' = Some code \<longrightarrow>
      IqErrorConverter_exit (IqError ''undefined-condition'' t x) = UpstreamError issuer code t)
   \<and> ErrorToXmppConverter_exit (PermissionError m) = XMPPError ''not-authorized'' None m
   \<and> ErrorToXmppConverter_exit (ValueError m) = XMPPError ''bad-request'' (Some ''modify'') m
   \<and> (c \<notin> {''not-authorized'', ''service-unavailable'', ''bad-request'', ''undefined-condition''}
        \<longrightarrow> IqErrorConverter_exit (IqError c t x) = IqError c t x)
   \<and> (find_descendant ''{urn:quoalise:0}upstream-error'' x = None \<longrightarrow>
      IqErrorConverter_exit (IqError ''undefined-condition'' t x)
        = IqError ''undefined-condition'' t x)
   \<and> ((\<forall>c' t' x'. e \<noteq> IqError c' t' x') \<longrightarrow> IqErrorConverter_exit e = e)
   \<and> ((\<forall>m'. e' \<noteq> PermissionError m' \<and> e' \<noteq> ValueError m') \<longrightarrow>
        ErrorToXmppConverter_exit e' = e')"
proof -
  have a: "(\<forall>c' t' x'. e \<noteq> IqError c' t' x') \<longrightarrow> IqErrorConverter_exit e = e"
    by (cases e) simp_all
  have b: "(\<forall>m'. e' \<noteq> PermissionError m' \<and> e' \<noteq> ValueError m') \<longrightarrow>
        ErrorToXmppConverter_exit e' = e'"
    by (cases e') simp_all
  show ?thesis using a b by (simp add: convert_def)
qed

theorem C6_error_mapping_witness:
  "IqErrorConverter_exit (IqError ''undefined-condition'' ''quota exceeded''
     (Element ''{jabber:client}iq'' [] []
        [Element ''{jabber:client}error'' [] []
           [Element ''{urn:quoalise:0}upstream-error''
              [(''issuer'', ''enedis''), (''code'', ''SGT500'')] [] []]]))
     = UpstreamError ''enedis'' ''SGT500'' ''quota exceeded''
   \<and> IqErrorConverter_exit (IqError ''item-not-found'' ''no such meter''
        (Element ''{jabber:client}iq'' [] [] []))
     = IqError ''item-not-found'' ''no such meter'' (Element ''{jabber:client}iq'' [] [] [])
   \<and> IqErrorConverter_exit (IqError ''undefined-condition'' ''no such meter''
        (Element ''{jabber:client}iq'' [] [] []))
     = IqError ''undefined-condition'' ''no such meter'' (Element ''{jabber:client}iq'' [] [] [])
   \<and> IqErrorConverter_exit IqTimeout = IqTimeout
   \<and> ErrorToXmppConverter_exit (KeyError ''identifier'') = KeyError ''identifier''"
proof -
  note mapped = C6_error_mapping [of "''quota exceeded''"
      "Element ''{jabber:client}iq'' [] []
        [Element ''{jabber:client}error'' [] []
           [Element ''{urn:quoalise:0}upstream-error''
              [(''issuer'', ''enedis''), (''code'', ''SGT500'')] [] []]]"
      "Element ''{urn:quoalise:0}upstream-error''
              [(''issuer'', ''enedis''), (''code'', ''SGT500'')] [] []"
      "''enedis''" "''SGT500''" "''denied''" "''item-not-found''" IqTimeout
      "KeyError ''identifier''"]
  note passed = C6_error_mapping [of "''no such meter''" "Element ''{jabber:client}iq'' [] [] []"
      "Element ''{jabber:client}iq'' [] [] []" "''i''" "''c''" "''denied''" "''item-not-found''"
      IqTimeout "KeyError ''identifier''"]
  show ?thesis
    using mapped passed by (simp add: find_descendant_def)
qed

subsection \<open>Dates\<close>

lemma digit_value_digit: "n < 10 \<Longrightarrow> digit_value (digit n) = n"
  by (simp add: digit_value_def digit_def)

lemma is_digit_digit: "n < 10 \<Longrightarrow> is_digit (digit n)"
  by (simp add: is_digit_def digit_def)

lemma digit_digit_value: "is_digit c \<Longrightarrow> digit (digit_value c) = c"
  by (simp add: is_digit_def digit_def digit_value_def)

lemma digit_value_less: "is_digit c \<Longrightarrow> digit_value c < 10"
  by (auto simp add: is_digit_def digit_value_def)

lemma recompose:
  "(y::nat) = q1 * 10 + r0 \<Longrightarrow> q1 = q2 * 10 + r1 \<Longrightarrow> q2 = q3 * 10 + r2 \<Longrightarrow>
   ((q3 * 10 + r2) * 10 + r1) * 10 + r0 = y"
  by simp

lemma four_digits:
  assumes "(y::nat) < 10000"
  shows "((y div 1000 mod 10 * 10 + y div 100 mod 10) * 10 + y div 10 mod 10) * 10 + y mod 10
    = y"
proof -
  have h: "y div 100 = y div 10 div 10" "y div 1000 = y div 100 div 10"
    by (simp_all add: div_mult2_eq [symmetric])
  have a: "y = y div 10 * 10 + y mod 10" by simp
  have b: "y div 10 = y div 100 * 10 + y div 10 mod 10"
    unfolding h by simp
  have c: "y div 100 = y div 1000 * 10 + y div 100 mod 10"
    unfolding h(2) by simp
  have d: "y div 1000 mod 10 = y div 1000" using assms by simp
  show ?thesis unfolding d by (rule recompose [OF a b c])
qed

lemma match_Y_digits:
  "a < 10 \<Longrightarrow> b < 10 \<Longrightarrow> c < 10 \<Longrightarrow> d < 10 \<Longrightarrow>
   match_Y (digit a # digit b # digit c # digit d # r)
     = Some (((a * 10 + b) * 10 + c) * 10 + d, r)"
  by (simp add: is_digit_digit digit_value_digit)

lemma match_Y_pad4:
  assumes "y < 10000"
  shows "match_Y (pad4 y @ r) = Some (y, r)"
proof -
  have "match_Y (pad4 y @ r) =
     Some (((y div 1000 mod 10 * 10 + y div 100 mod 10) * 10 + y div 10 mod 10) * 10
             + y mod 10, r)"
    unfolding pad4_def append_Cons append_Nil
    by (rule match_Y_digits) simp_all
  then show ?thesis by (simp only: four_digits [OF assms])
qed

lemma match_m_pad2:
  assumes "1 \<le> m" and "m \<le> 12"
  shows "match_m (pad2 m @ r) = Some (m, r)"
proof -
  have "m = 1 \<or> m = 2 \<or> m = 3 \<or> m = 4 \<or> m = 5 \<or> m = 6 \<or> m = 7 \<or> m = 8 \<or> m = 9
      \<or> m = 10 \<or> m = 11 \<or> m = 12"
    using assms by arith
  then show ?thesis
    by (elim disjE)
       (simp_all add: pad2_def digit_def char_of_eq_iff nonzero_digit_def is_digit_def
          digit_value_def)
qed

lemma match_d_pad2:
  assumes "1 \<le> d" and "d \<le> 31"
  shows "match_d (pad2 d @ r) = Some (d, r)"
proof -
  have "d = 1 \<or> d = 2 \<or> d = 3 \<or> d = 4 \<or> d = 5 \<or> d = 6 \<or> d = 7 \<or> d = 8 \<or> d = 9
      \<or> d = 10 \<or> d = 11 \<or> d = 12 \<or> d = 13 \<or> d = 14 \<or> d = 15 \<or> d = 16 \<or> d = 17
      \<or> d = 18 \<or> d = 19 \<or> d = 20 \<or> d = 21 \<or> d = 22 \<or> d = 23 \<or> d = 24 \<or> d = 25
      \<or> d = 26 \<or> d = 27 \<or> d = 28 \<or> d = 29 \<or> d = 30 \<or> d = 31"
    using assms by arith
  then show ?thesis
    by (elim disjE)
       (simp_all add: pad2_def digit_def char_of_eq_iff nonzero_digit_def is_digit_def
          digit_value_def)
qed

lemma unpadded_pad4: "1000 \<le> y \<Longrightarrow> unpadded y = pad4 y"
  by (simp add: unpadded_def)

lemma days_in_month_le: "days_in_month y m \<le> 31"
  by (simp add: days_in_month_def)

text \<open>Formatting a date and parsing the result gives the date back.\<close>

lemma parse_format:
  fixes d :: date
  assumes "valid_date d" and "padded_year \<or> 1000 \<le> year d"
  shows "parse_iso_date (format_iso_date padded_year d) = Inr d"
proof -
  from assms(1) have y: "year d < 10000" and m: "1 \<le> month d" "month d \<le> 12"
    and dd: "1 \<le> day d" "day d \<le> 31"
    using days_in_month_le [of "year d" "month d"] by (auto simp: valid_date_def)
  have f: "format_iso_date padded_year d =
      pad4 (year d) @ CHR ''-'' # pad2 (month d) @ CHR ''-'' # pad2 (day d)"
    using assms(2) by (auto simp: format_iso_date_def unpadded_pad4)
  have v: "valid_date \<lparr>year = year d, month = month d, day = day d\<rparr>"
    using assms(1) by (simp add: valid_date_def)
  have md: "match_d (pad2 (day d)) = Some (day d, [])"
    using match_d_pad2 [OF dd, of "[]"] by simp
  show ?thesis
    unfolding f parse_iso_date_def
    by (simp add: match_Y_pad4 [OF y] match_m_pad2 [OF m] md v)
qed

lemma pad2_digits:
  assumes "is_digit a" and "is_digit b"
  shows "pad2 (digit_value a * 10 + digit_value b) = [a, b]"
proof -
  have "digit_value a < 10" "digit_value b < 10"
    using assms by (simp_all add: digit_value_less)
  then show ?thesis
    using assms by (simp add: pad2_def digit_digit_value)
qed

lemma div_mod_step:
  "(r::nat) < 10 \<Longrightarrow> (q * 10 + r) div 10 = q"
  "(r::nat) < 10 \<Longrightarrow> (q * 10 + r) mod 10 = r"
  by simp_all

lemma pad4_digits:
  assumes "is_digit a" and "is_digit b" and "is_digit c" and "is_digit d"
  shows "pad4 (((digit_value a * 10 + digit_value b) * 10 + digit_value c) * 10 + digit_value d)
    = [a, b, c, d]"
proof -
  let ?q2 = "digit_value a * 10 + digit_value b"
  let ?q1 = "?q2 * 10 + digit_value c"
  let ?n = "?q1 * 10 + digit_value d"
  have l: "digit_value a < 10" "digit_value b < 10" "digit_value c < 10" "digit_value d < 10"
    using assms by (simp_all add: digit_value_less)
  have h: "?n div 100 = ?n div 10 div 10" "?n div 1000 = ?n div 10 div 10 div 10"
    by (simp_all only: div_mult2_eq [symmetric], simp_all)
  have n: "?n div 10 = ?q1" "?n mod 10 = digit_value d"
    using l(4) by (rule div_mod_step)+
  have q1: "?q1 div 10 = ?q2" "?q1 mod 10 = digit_value c"
    using l(3) by (rule div_mod_step)+
  have q2: "?q2 div 10 = digit_value a" "?q2 mod 10 = digit_value b"
    using l(2) by (rule div_mod_step)+
  have a: "digit_value a mod 10 = digit_value a" using l(1) by simp
  show ?thesis
    using assms unfolding pad4_def h n q1 q2 a by (simp only: digit_digit_value)
qed

lemma dv_chars: "digit_value CHR ''0'' = 0" "digit_value CHR ''1'' = 1"
  "digit_value CHR ''2'' = 2" "digit_value CHR ''3'' = 3"
  "is_digit CHR ''0''" "is_digit CHR ''1''" "is_digit CHR ''2''" "is_digit CHR ''3''"
  "\<not> is_digit CHR ''-''" "\<not> is_digit CHR '' ''"
  by (simp_all add: digit_value_def is_digit_def)

lemma match_m_two:
  assumes "is_digit f" and "is_digit g" and "match_m (f # g # r) = Some (m, r')"
  shows "(r' = r \<and> pad2 m = [f, g]) \<or> r' = g # r"
proof -
  have z: "pad2 (digit_value g) = [CHR ''0'', g]"
    using pad2_digits [of "CHR ''0''" g] assms(2) by (simp add: dv_chars)
  have o: "pad2 (10 + digit_value g) = [CHR ''1'', g]"
    using pad2_digits [of "CHR ''1''" g] assms(2) by (simp add: dv_chars)
  show ?thesis
    using assms(3) z o by (auto split: if_splits)
qed

lemma match_d_two:
  assumes "is_digit i" and "is_digit j" and "match_d [i, j] = Some (dd, r')"
  shows "(r' = [] \<and> pad2 dd = [i, j]) \<or> r' = [j]"
proof -
  have z: "pad2 (digit_value j) = [CHR ''0'', j]"
    using pad2_digits [of "CHR ''0''" j] assms(2) by (simp add: dv_chars)
  have t: "pad2 (30 + digit_value j) = [CHR ''3'', j]"
    using pad2_digits [of "CHR ''3''" j] assms(2) by (simp add: dv_chars)
  have g: "pad2 (digit_value i * 10 + digit_value j) = [i, j]"
    using assms(1,2) by (rule pad2_digits)
  have sp: "i \<noteq> CHR '' ''" using assms(1) dv_chars by auto
  show ?thesis
    using assms(3) z t g sp by (auto split: if_splits)
qed

lemma match_Y_four:
  assumes "is_digit a" and "is_digit b" and "is_digit c" and "is_digit d"
    and "match_Y (a # b # c # d # r) = Some (y, r')"
  shows "r' = r \<and> pad4 y = [a, b, c, d]"
  using assms pad4_digits [OF assms(1-4)] by auto

lemma strict_formE:
  assumes "strict_form s"
  obtains a b c d f g i j where "s = [a, b, c, d, CHR ''-'', f, g, CHR ''-'', i, j]"
    and "is_digit a" and "is_digit b" and "is_digit c" and "is_digit d"
    and "is_digit f" and "is_digit g" and "is_digit i" and "is_digit j"
  using assms by (auto elim!: strict_form.elims)



lemma parse_iso_date_InrD:
  assumes "parse_iso_date s = Inr dt"
  obtains y r1 r2 m r3 r4 dd where "match_Y s = Some (y, r1)" and "match_dash r1 = Some r2"
    and "match_m r2 = Some (m, r3)" and "match_dash r3 = Some r4"
    and "match_d r4 = Some (dd, [])" and "dt = \<lparr>year = y, month = m, day = dd\<rparr>"
    and "valid_date dt"
  using assms unfolding parse_iso_date_def
  by (auto split: option.splits if_splits)

text \<open>Parsing a string in the strict form and formatting the result gives the string back.\<close>

lemma format_parse:
  assumes "strict_form s" and "parse_iso_date s = Inr dt"
    and "padded_year \<or> 1000 \<le> year dt"
  shows "format_iso_date padded_year dt = s"
proof -
  from assms(1) obtain a b c d f g i j
    where s: "s = [a, b, c, d, CHR ''-'', f, g, CHR ''-'', i, j]"
      and dg: "is_digit a" "is_digit b" "is_digit c" "is_digit d"
        "is_digit f" "is_digit g" "is_digit i" "is_digit j"
    by (erule strict_formE)
  from assms(2) obtain y r1 r2 m r3 r4 dd
    where my: "match_Y s = Some (y, r1)" and d1: "match_dash r1 = Some r2"
      and mm: "match_m r2 = Some (m, r3)" and d2: "match_dash r3 = Some r4"
      and md: "match_d r4 = Some (dd, [])" and dt: "dt = \<lparr>year = y, month = m, day = dd\<rparr>"
    by (rule parse_iso_date_InrD)
  from my have "r1 = [CHR ''-'', f, g, CHR ''-'', i, j] \<and> pad4 y = [a, b, c, d]"
    unfolding s by (rule match_Y_four [OF dg(1-4)])
  then have r1: "r1 = [CHR ''-'', f, g, CHR ''-'', i, j]" and py: "pad4 y = [a, b, c, d]"
    by simp_all
  from d1 have r2: "r2 = [f, g, CHR ''-'', i, j]" unfolding r1 by simp
  have "r3 \<noteq> g # [CHR ''-'', i, j]"
  proof
    assume "r3 = g # [CHR ''-'', i, j]"
    with d2 have "g = CHR ''-''" by (simp split: if_splits)
    with dg(6) show False by (simp add: dv_chars)
  qed
  with match_m_two [OF dg(5) dg(6) mm [unfolded r2]]
  have r3: "r3 = [CHR ''-'', i, j]" and pm: "pad2 m = [f, g]" by simp_all
  from d2 have r4: "r4 = [i, j]" unfolding r3 by simp
  from match_d_two [OF dg(7) dg(8) md [unfolded r4]] have pd: "pad2 dd = [i, j]" by simp
  have "1000 \<le> y \<Longrightarrow> unpadded y = pad4 y" by (rule unpadded_pad4)
  with assms(3) dt py have yy: "(if padded_year then pad4 y else unpadded y) = [a, b, c, d]"
    by auto
  have "format_iso_date padded_year dt =
      (if padded_year then pad4 y else unpadded y) @ ''-'' @ pad2 m @ ''-'' @ pad2 dd"
    by (simp add: format_iso_date_def dt)
  then show ?thesis
    by (simp only: yy pm pd s) simp
qed

text \<open>
  C10. \<open>parse_iso_date\<close> accepts a month and a day written with one digit, and the
  formatted result is not the string that was parsed.
\<close>

theorem C10_one_digit_month_accepted:
  "parse_iso_date ''2024-1-5'' = Inr \<lparr>year = 2024, month = 1, day = 5\<rparr>
   \<and> format_iso_date True \<lparr>year = 2024, month = 1, day = 5\<rparr> = ''2024-01-05''
   \<and> format_iso_date False \<lparr>year = 2024, month = 1, day = 5\<rparr> = ''2024-01-05''"
  by (simp add: parse_iso_date_def format_iso_date_def is_digit_def digit_value_def
      nonzero_digit_def valid_date_def days_in_month_def pad2_def pad4_def unpadded_def
      digit_def char_of_eq_iff)

text \<open>
  Where the year is printed without padding, a date before the year 1000 is formatted
  with fewer than four digits, which \<open>parse_iso_date\<close> rejects.
\<close>

lemma unpadded_year_rejected:
  "format_iso_date False \<lparr>year = 999, month = 12, day = 31\<rparr> = ''999-12-31''
   \<and> parse_iso_date ''999-12-31'' = Inl (ValueError ''time data does not match format'')"
  by (simp add: parse_iso_date_def format_iso_date_def is_digit_def digit_value_def
      pad2_def unpadded_def digit_def char_of_eq_iff)

text \<open>
  C10, as the code has it. For every date whose year is printed with four digits (any
  year where the year is padded, a year from 1000 on otherwise), parsing the formatted
  date gives the date back. For every string in the strict form that \<open>parse_iso_date\<close>
  accepts, formatting the parsed date gives the string back, under the same condition on
  the year.
\<close>

theorem C10_roundtrip:
  fixes d :: date
  shows "(valid_date d \<and> (padded_year \<or> 1000 \<le> year d) \<longrightarrow>
            parse_iso_date (format_iso_date padded_year d) = Inr d)
     \<and> (strict_form s \<and> parse_iso_date s = Inr dt \<and> (padded_year \<or> 1000 \<le> year dt) \<longrightarrow>
            format_iso_date padded_year dt = s)"
  using parse_format [of d padded_year] format_parse [of s dt padded_year] by blast

theorem C10_roundtrip_witness:
  "parse_iso_date (format_iso_date False \<lparr>year = 2024, month = 2, day = 29\<rparr>)
     = Inr \<lparr>year = 2024, month = 2, day = 29\<rparr>
   \<and> format_iso_date False \<lparr>year = 2024, month = 2, day = 29\<rparr> = ''2024-02-29''"
proof -
  have v: "valid_date \<lparr>year = 2024, month = 2, day = 29\<rparr>"
    by (simp add: valid_date_def days_in_month_def is_leap_def)
  have s: "strict_form ''2024-02-29''"
    by (simp add: is_digit_def)
  have p: "parse_iso_date ''2024-02-29'' = Inr \<lparr>year = 2024, month = 2, day = 29\<rparr>"
    by (simp add: parse_iso_date_def is_digit_def digit_value_def nonzero_digit_def
        valid_date_def days_in_month_def is_leap_def)
  show ?thesis
    using C10_roundtrip [of "\<lparr>year = 2024, month = 2, day = 29\<rparr>" False "''2024-02-29''"
        "\<lparr>year = 2024, month = 2, day = 29\<rparr>"] v s p
    by simp
qed

subsection \<open>History requests\<close>

text \<open>
  C7. When a start or end time is supplied without timezone information,
  \<open>get_history\<close> raises \<open>ValueError\<close>: no command element is built and no stanza is
  sent. When neither supplied time is naive, building the request raises no
  \<open>ValueError\<close>.
\<close>

theorem C7_naive_rejected_locally:
  "(naive start_time \<or> naive end_time \<longrightarrow>
      get_history_command identifier start_time end_time
        = Inl (ValueError ''Naive datetimes are not handled to prevent errors'')
      \<and> get_history send from_xml proxy_full_jid identifier start_time end_time
        = ([], Inl (ValueError ''Naive datetimes are not handled to prevent errors'')))
   \<and> (\<not> naive start_time \<and> \<not> naive end_time \<longrightarrow>
      (\<forall>msg. get_history_command identifier start_time end_time \<noteq> Inl (ValueError msg)))"
  by (auto simp: naive_def get_history_def get_history_command_def time_field_def Let_def
      split: option.splits)

theorem C7_naive_rejected_locally_witness:
  "get_history (\<lambda>stanza. Inl IqTimeout) (\<lambda>data. Inr (0 :: nat)) ''proxy@host/quoalise''
     ''urn:dev:1''
     (Some \<lparr>year = 2024, month = 1, day = 5, hour = 0, minute = 0, second = 0,
            microsecond = 0, tzinfo = Some 60\<rparr>)
     (Some \<lparr>year = 2024, month = 1, day = 6, hour = 0, minute = 0, second = 0,
            microsecond = 0, tzinfo = None\<rparr>)
   = ([], Inl (ValueError ''Naive datetimes are not handled to prevent errors''))
   \<and> get_history_command ''urn:dev:1''
     (Some \<lparr>year = 2024, month = 1, day = 5, hour = 0, minute = 0, second = 0,
            microsecond = 0, tzinfo = Some 60\<rparr>) None
   \<noteq> Inl (ValueError ''Naive datetimes are not handled to prevent errors'')"
proof -
  let ?aware = "Some \<lparr>year = 2024, month = 1, day = 5, hour = 0, minute = 0, second = 0,
            microsecond = 0, tzinfo = Some 60\<rparr>"
  let ?naive = "Some \<lparr>year = 2024, month = 1, day = 6, hour = 0, minute = 0, second = 0,
            microsecond = 0, tzinfo = None\<rparr>"
  have n: "naive ?naive" and a: "\<not> naive ?aware" and z: "\<not> naive None"
    by (simp_all add: naive_def)
  show ?thesis
    using C7_naive_rejected_locally [of ?aware ?naive "''urn:dev:1''" "\<lambda>stanza. Inl IqTimeout"
        "\<lambda>data. Inr (0 :: nat)" "''proxy@host/quoalise''"]
      C7_naive_rejected_locally [of ?aware None "''urn:dev:1''" "\<lambda>stanza. Inl IqTimeout"
        "\<lambda>data. Inr (0 :: nat)" "''proxy@host/quoalise''"] n a z
    by simp
qed

text \<open>
  C8. Whenever the request is built, its form has the identifier field, a start_time
  field exactly when a start time was supplied and an end_time field exactly when an end
  time was supplied, and the stanza sent carries this command.
\<close>

theorem C8_absent_times_omitted:
  "get_history_command identifier start_time end_time = Inr command \<longrightarrow>
     field_vars command =
       Some ''identifier''
         # (case start_time of None \<Rightarrow> [] | Some t \<Rightarrow> [Some ''start_time''])
         @ (case end_time of None \<Rightarrow> [] | Some t \<Rightarrow> [Some ''end_time''])
     \<and> fst (get_history send from_xml proxy_full_jid identifier start_time end_time)
         = [\<lparr>iq_type = ''set'', iq_to = proxy_full_jid, iq_payload = [command]\<rparr>]"
  by (auto simp: get_history_def get_history_command_def time_field_def Let_def
      field_vars_def text_field_def split: option.splits if_splits)

theorem C8_absent_times_omitted_witness:
  "get_history_command ''urn:dev:1'' None None
     = Inr (Element ''{http://jabber.org/protocol/commands}command''
              [(''node'', ''get_history''), (''action'', ''execute'')] []
              [Element ''{jabber:x:data}x'' [(''type'', ''submit'')] []
                 [text_field ''identifier'' ''urn:dev:1'']])
   \<and> field_vars (Element ''{http://jabber.org/protocol/commands}command''
              [(''node'', ''get_history''), (''action'', ''execute'')] []
              [Element ''{jabber:x:data}x'' [(''type'', ''submit'')] []
                 [text_field ''identifier'' ''urn:dev:1'']])
     = [Some ''identifier'']"
proof -
  let ?command = "Element ''{http://jabber.org/protocol/commands}command''
              [(''node'', ''get_history''), (''action'', ''execute'')] []
              [Element ''{jabber:x:data}x'' [(''type'', ''submit'')] []
                 [text_field ''identifier'' ''urn:dev:1'']]"
  have b: "get_history_command ''urn:dev:1'' None None = Inr ?command"
    by (simp add: get_history_command_def time_field_def xml_chars_ok_def)
  show ?thesis
    using C8_absent_times_omitted [of "''urn:dev:1''" None None ?command
        "\<lambda>stanza. Inl IqTimeout" "\<lambda>data. Inr (0 :: nat)" "''proxy@host/quoalise''"] b
    by simp
qed


end
